theory Spec2Isabelle
  imports Main
begin

section \<open>Python strings\<close>

text \<open>
  A Python \<open>str\<close> is a sequence of Unicode code points and \<open>len\<close> counts code points,
  so a string is a list of code points (natural numbers). \<open>lit\<close> turns an ASCII
  literal into such a list; the few non-ASCII characters of the sources are written
  as their code points.
\<close>

type_synonym pystr = "nat list"

definition lit :: "string \<Rightarrow> pystr" where
  "lit s = map of_char s"

definition SP :: nat where
  "SP = 32"

definition NL :: nat where
  "NL = 10"

definition USCORE :: nat where
  "USCORE = 95"

definition HYPHEN :: nat where
  "HYPHEN = 45"

text \<open>
  The whitespace of \<open>str.split()\<close>, \<open>str.strip()\<close> and of the regular expression
  class \<open>\s\<close> on \<open>str\<close> patterns: the code points for which CPython's
  \<open>Py_UNICODE_ISSPACE\<close> holds.
\<close>

definition isspace :: "nat \<Rightarrow> bool" where
  "isspace c = ((9 \<le> c \<and> c \<le> 13) \<or> (28 \<le> c \<and> c \<le> 32) \<or> c = 133 \<or> c = 160
     \<or> c = 5760 \<or> (8192 \<le> c \<and> c \<le> 8202) \<or> c = 8232 \<or> c = 8233 \<or> c = 8239
     \<or> c = 8287 \<or> c = 12288)"

text \<open>
  \<open>str.lower()\<close> and \<open>str.isalpha()\<close> are exact on ASCII. Beyond ASCII they read the
  Unicode character database of the Python runtime, which is taken as a parameter:
  \<open>str_lower\<close> lowercases a whole string that holds a non-ASCII code point (lowercasing
  is context dependent there), \<open>cp_isalpha\<close> tells whether a non-ASCII code point is a
  letter.
\<close>

record unicode_db =
  str_lower :: "pystr \<Rightarrow> pystr"
  cp_isalpha :: "nat \<Rightarrow> bool"

definition is_ascii :: "nat \<Rightarrow> bool" where
  "is_ascii c = (c < 128)"

definition ascii_lower :: "nat \<Rightarrow> nat" where
  "ascii_lower c = (if 65 \<le> c \<and> c \<le> 90 then c + 32 else c)"

definition ascii_isalpha :: "nat \<Rightarrow> bool" where
  "ascii_isalpha c = ((65 \<le> c \<and> c \<le> 90) \<or> (97 \<le> c \<and> c \<le> 122))"

definition lower :: "unicode_db \<Rightarrow> pystr \<Rightarrow> pystr" where
  "lower U s = (if list_all is_ascii s then map ascii_lower s else str_lower U s)"

definition isalpha :: "unicode_db \<Rightarrow> pystr \<Rightarrow> bool" where
  "isalpha U w = (w \<noteq> [] \<and>
     list_all (\<lambda>c. if is_ascii c then ascii_isalpha c else cp_isalpha U c) w)"

definition strip :: "pystr \<Rightarrow> pystr" where
  "strip s = rev (dropWhile isspace (rev (dropWhile isspace s)))"

text \<open>\<open>s.split()\<close>: the maximal runs of non-whitespace; \<open>w\<close> is the word being read.\<close>

fun split_acc :: "pystr \<Rightarrow> pystr \<Rightarrow> pystr list" where
  "split_acc w [] = (if w = [] then [] else [w])"
| "split_acc w (c # cs) =
     (if isspace c then (if w = [] then split_acc [] cs else w # split_acc [] cs)
      else split_acc (w @ [c]) cs)"

definition split :: "pystr \<Rightarrow> pystr list" where
  "split s = split_acc [] s"

fun join :: "pystr \<Rightarrow> pystr list \<Rightarrow> pystr" where
  "join sep [] = []"
| "join sep [x] = x"
| "join sep (x # y # ys) = x @ sep @ join sep (y # ys)"

text \<open>\<open>s.replace(a, b)\<close> for one-character \<open>a\<close> and \<open>b\<close>.\<close>

definition replace_char :: "nat \<Rightarrow> nat \<Rightarrow> pystr \<Rightarrow> pystr" where
  "replace_char a b s = map (\<lambda>c. if c = a then b else c) s"

text \<open>\<open>xs[:n]\<close> for a Python integer \<open>n\<close>: a negative \<open>n\<close> counts from the end.\<close>

definition slice_to :: "'a list \<Rightarrow> int \<Rightarrow> 'a list" where
  "slice_to xs n = (if 0 \<le> n then take (nat n) xs else take (length xs - nat (- n)) xs)"

text \<open>\<open>t in s\<close> on strings: \<open>t\<close> occurs in \<open>s\<close> as a contiguous substring.\<close>

fun startswith :: "pystr \<Rightarrow> pystr \<Rightarrow> bool" where
  "startswith s [] = True"
| "startswith [] (c # t) = False"
| "startswith (d # s) (c # t) = (d = c \<and> startswith s t)"

fun contains :: "pystr \<Rightarrow> pystr \<Rightarrow> bool" where
  "contains [] t = (t = [])"
| "contains (d # s) t = (startswith (d # s) t \<or> contains s t)"

text \<open>\<open>str(n)\<close> for a non-negative integer: its decimal digits.\<close>

function str_of_nat :: "nat \<Rightarrow> pystr" where
  "str_of_nat n = (if n < 10 then [48 + n] else str_of_nat (n div 10) @ [48 + n mod 10])"
  by pat_completeness auto
termination
  by (relation "measure (\<lambda>n. n)") auto

declare str_of_nat.simps [simp del]

section \<open>The model registry (turbulence\_models.py)\<close>

text \<open>
  Of a \<open>TurbulenceParameter\<close> and a \<open>TurbulenceModel\<close> the retrieval code reads the
  name, the description, the full name, the category, the parameters and the
  applications; the numeric bounds, units and limitations are not read by it and
  are left out of the records.
\<close>

record turbulence_parameter =
  param_name :: pystr
  param_description :: pystr

record turbulence_model =
  model_name :: pystr
  full_name :: pystr
  category :: pystr
  parameters :: "turbulence_parameter list"
  applications :: "pystr list"

definition param :: "string \<Rightarrow> pystr \<Rightarrow> turbulence_parameter" where
  "param n d = \<lparr>param_name = lit n, param_description = d\<rparr>"

definition EPSILON :: nat where
  "EPSILON = 949"

definition OMEGA :: nat where
  "OMEGA = 969"

definition k_epsilon :: turbulence_model where
  "k_epsilon = \<lparr>
     model_name = lit ''k_epsilon'',
     full_name = lit ''k-'' @ [EPSILON] @ lit '' (k-epsilon)'',
     category = lit ''RANS'',
     parameters = [
       param ''Cmu'' (lit ''Turbulent viscosity constant''),
       param ''C1epsilon'' (lit ''Dissipation equation constant C1''),
       param ''C2epsilon'' (lit ''Dissipation equation constant C2''),
       param ''sigma_k'' (lit ''Prandtl number for turbulent kinetic energy''),
       param ''sigma_epsilon'' (lit ''Prandtl number for dissipation rate'')],
     applications = [
       lit ''Free shear flows'',
       lit ''Wall-bounded flows with mild pressure gradients'',
       lit ''Industrial flow applications'',
       lit ''Environmental flows'']\<rparr>"

definition k_omega_sst :: turbulence_model where
  "k_omega_sst = \<lparr>
     model_name = lit ''k_omega_sst'',
     full_name = lit ''k-'' @ [OMEGA] @ lit '' SST (Shear Stress Transport)'',
     category = lit ''RANS'',
     parameters = [
       param ''beta_star'' (lit ''Closure coefficient for turbulent kinetic energy destruction''),
       param ''alpha1'' (lit ''Closure coefficient for '' @ [OMEGA] @ lit '' equation in inner region''),
       param ''beta1'' (lit ''Closure coefficient for '' @ [OMEGA] @ lit '' destruction in inner region''),
       param ''alpha2'' (lit ''Closure coefficient for '' @ [OMEGA] @ lit '' equation in outer region''),
       param ''beta2'' (lit ''Closure coefficient for '' @ [OMEGA] @ lit '' destruction in outer region''),
       param ''sigma_k1'' (lit ''Prandtl number for k equation in inner region''),
       param ''sigma_omega1'' (lit ''Prandtl number for '' @ [OMEGA] @ lit '' equation in inner region''),
       param ''sigma_k2'' (lit ''Prandtl number for k equation in outer region''),
       param ''sigma_omega2'' (lit ''Prandtl number for '' @ [OMEGA] @ lit '' equation in outer region''),
       param ''a1'' (lit ''Stress limiter constant'')],
     applications = [
       lit ''Adverse pressure gradient flows'',
       lit ''Separated flows'',
       lit ''Airfoil and wing aerodynamics'',
       lit ''Heat transfer applications'',
       lit ''Turbomachinery flows'']\<rparr>"

definition spalart_allmaras :: turbulence_model where
  "spalart_allmaras = \<lparr>
     model_name = lit ''spalart_allmaras'',
     full_name = lit ''Spalart-Allmaras'',
     category = lit ''RANS'',
     parameters = [
       param ''Cb1'' (lit ''Production constant''),
       param ''Cb2'' (lit ''Diffusion constant''),
       param ''Cv1'' (lit ''Viscosity constant''),
       param ''Cw1'' (lit ''Wall destruction constant''),
       param ''Cw2'' (lit ''Wall destruction constant''),
       param ''Cw3'' (lit ''Wall destruction constant''),
       param ''sigma'' (lit ''Prandtl number for turbulent viscosity'')],
     applications = [
       lit ''Aerodynamic flows around airfoils and wings'',
       lit ''External aerodynamics'',
       lit ''Flows with mild separation'',
       lit ''Aerospace applications'']\<rparr>"

definition reynolds_stress :: turbulence_model where
  "reynolds_stress = \<lparr>
     model_name = lit ''reynolds_stress'',
     full_name = lit ''Reynolds Stress Model (RSM)'',
     category = lit ''RANS'',
     parameters = [
       param ''Cmu'' (lit ''Turbulent viscosity constant''),
       param ''C1epsilon'' (lit ''Dissipation equation constant C1''),
       param ''C2epsilon'' (lit ''Dissipation equation constant C2''),
       param ''C1'' (lit ''Slow pressure-strain constant''),
       param ''C2'' (lit ''Rapid pressure-strain constant''),
       param ''sigma_epsilon'' (lit ''Prandtl number for dissipation rate''),
       param ''sigma_k'' (lit ''Prandtl number for turbulent kinetic energy'')],
     applications = [
       lit ''Complex flows with strong streamline curvature'',
       lit ''Swirling flows'',
       lit ''Flows with strong anisotropy'',
       lit ''Secondary flow prediction'',
       lit ''Buoyant flows'']\<rparr>"

definition TURBULENCE_MODELS :: "(pystr \<times> turbulence_model) list" where
  "TURBULENCE_MODELS = [
     (lit ''k_epsilon'', k_epsilon),
     (lit ''k_omega_sst'', k_omega_sst),
     (lit ''spalart_allmaras'', spalart_allmaras),
     (lit ''reynolds_stress'', reynolds_stress)]"

definition get_model :: "pystr \<Rightarrow> turbulence_model option" where
  "get_model name = map_of TURBULENCE_MODELS name"

section \<open>Query synthesis (retrieval\_system.py, construct\_search\_query)\<close>

text \<open>
  The loop over the parameters: each parameter contributes its name and, when its
  description is not empty, the first two words of the lowercased description
  that are longer than 4 characters and alphabetic.
\<close>

definition key_words :: "unicode_db \<Rightarrow> pystr \<Rightarrow> pystr list" where
  "key_words U description =
     filter (\<lambda>word. 4 < length word \<and> isalpha U word) (split (lower U description))"

fun param_terms :: "unicode_db \<Rightarrow> turbulence_parameter list \<Rightarrow> pystr list" where
  "param_terms U [] = []"
| "param_terms U (p # ps) =
     (param_name p #
      (if param_description p \<noteq> [] then take 2 (key_words U (param_description p)) else []))
     @ param_terms U ps"

definition query_parts :: "unicode_db \<Rightarrow> turbulence_model \<Rightarrow> pystr \<Rightarrow> pystr \<Rightarrow> pystr list" where
  "query_parts U model_info user_description focus_area =
     [full_name model_info,
      replace_char USCORE HYPHEN (model_name model_info),
      category model_info @ lit '' turbulence model'']
     @ take 10 (param_terms U (parameters model_info))
     @ (if applications model_info \<noteq> [] then take 3 (applications model_info) else [])
     @ (if strip user_description \<noteq> [] then [strip user_description] else [])
     @ (if strip focus_area \<noteq> [] then [strip focus_area] else [])"

definition construct_search_query :: "unicode_db \<Rightarrow> pystr \<Rightarrow> pystr \<Rightarrow> pystr \<Rightarrow> pystr" where
  "construct_search_query U turbulence_model user_description focus_area =
     (case get_model turbulence_model of
        None \<Rightarrow> turbulence_model @ lit '' turbulence model parameters '' @ user_description
      | Some model_info \<Rightarrow>
          take 500 (join [SP] (split (replace_char USCORE SP
            (join [SP] (query_parts U model_info user_description focus_area))))))"

section \<open>Synonym expansion (retrieval\_system.py, expand\_query\_with\_synonyms)\<close>

text \<open>
  The \<open>expansions\<close> dictionary in declaration order, as an association list. The
  first synonyms of \<open>k-epsilon\<close> and \<open>k-omega\<close> hold the non-ASCII code points that
  the source file has there (U+00CE U+00B5, and U+00CF U+2030).
\<close>

definition expansions :: "(pystr \<times> pystr list) list" where
  "expansions = [
     (lit ''k-epsilon'', [lit ''k-'' @ [206, 181], lit ''k epsilon'', lit ''k_epsilon'',
        lit ''kinetic energy dissipation'']),
     (lit ''k-omega'', [lit ''k-'' @ [207, 8240], lit ''k omega'', lit ''k_omega'',
        lit ''kinetic energy frequency'']),
     (lit ''SST'', [lit ''Shear Stress Transport'', lit ''Menter SST'', lit ''k-omega SST'']),
     (lit ''spalart'', [lit ''Spalart-Allmaras'', lit ''SA model'', lit ''one equation model'']),
     (lit ''reynolds'', [lit ''Reynolds stress'', lit ''RSM'', lit ''second moment closure'']),
     (lit ''viscosity'', [lit ''turbulent viscosity'', lit ''eddy viscosity'',
        lit ''kinematic viscosity'']),
     (lit ''dissipation'', [lit ''energy dissipation'', lit ''epsilon'',
        lit ''turbulent dissipation'']),
     (lit ''production'', [lit ''turbulence production'', lit ''kinetic energy production'']),
     (lit ''constants'', [lit ''coefficients'', lit ''parameters'', lit ''closure constants'']),
     (lit ''wall'', [lit ''near-wall'', lit ''wall treatment'', lit ''wall function'']),
     (lit ''boundary'', [lit ''boundary conditions'', lit ''BC'', lit ''wall BC'']),
     (lit ''separation'', [lit ''flow separation'', lit ''separated flow'',
        lit ''adverse gradient'']),
     (lit ''pressure'', [lit ''pressure gradient'', lit ''adverse pressure gradient'',
        lit ''APG''])]"

text \<open>The loop over \<open>expansions.items()\<close>, for any table.\<close>

fun expanded_terms :: "pystr \<Rightarrow> (pystr \<times> pystr list) list \<Rightarrow> pystr list" where
  "expanded_terms query_lower [] = []"
| "expanded_terms query_lower ((term, synonyms) # rest) =
     (if contains query_lower term then take 2 synonyms else [])
     @ expanded_terms query_lower rest"

definition expand_query_with_synonyms :: "unicode_db \<Rightarrow> pystr \<Rightarrow> pystr" where
  "expand_query_with_synonyms U base_query =
     (let terms = expanded_terms (lower U base_query) expansions
      in if terms \<noteq> [] then base_query @ [SP] @ join [SP] terms else base_query)"

section \<open>The vector store (vector\_store.py)\<close>

text \<open>
  A Python exception is a value. Metadata values are strings or integers, a
  dictionary is a map, and \<open>d.get(k, default)\<close> is \<open>dict_get\<close>.
\<close>

datatype exn = Exception pystr | TypeError

datatype pyval = PStr pystr | PInt int

type_synonym pydict = "pystr \<rightharpoonup> pyval"

definition dict_get :: "pydict \<Rightarrow> pystr \<Rightarrow> pyval \<Rightarrow> pyval" where
  "dict_get d k dflt = (case d k of None \<Rightarrow> dflt | Some v \<Rightarrow> v)"

text \<open>
  The hosted services are outside the repository and are parameters: the names of
  the existing indexes, opening an index handle, the embedding of a text, and the
  similarity query of an index handle (the matches of its response). Each may raise.
  A query may change the handle's internal state, so it returns the handle too.
  The relevance score is a float; its type is the parameter \<open>'sc\<close>.
\<close>

record 'sc match =
  match_id :: pystr
  match_score :: 'sc
  match_metadata :: pydict

record ('ix, 'e, 'sc) services =
  list_index_names :: "exn + pystr list"
  open_index :: "pystr \<Rightarrow> exn + 'ix"
  embeddings_create :: "pystr \<Rightarrow> exn + 'e"
  index_query :: "'ix \<Rightarrow> 'e \<Rightarrow> int \<Rightarrow> (exn + 'sc match list) \<times> 'ix"

record 'ix vector_store =
  index_name :: pystr
  index_handle :: "'ix option"

definition connect_to_index ::
  "('ix, 'e, 'sc) services \<Rightarrow> 'ix vector_store \<Rightarrow> bool \<times> 'ix vector_store" where
  "connect_to_index S vs =
     (case list_index_names S of
        Inl e \<Rightarrow> (False, vs)
      | Inr names \<Rightarrow>
          if \<not> List.member names (index_name vs) then (False, vs)
          else (case open_index S (index_name vs) of
                  Inl e \<Rightarrow> (False, vs)
                | Inr ix \<Rightarrow> (True, vs\<lparr>index_handle := Some ix\<rparr>)))"

definition generate_embedding :: "('ix, 'e, 'sc) services \<Rightarrow> pystr \<Rightarrow> exn + 'e" where
  "generate_embedding S text = embeddings_create S text"

record 'sc query_result =
  result_id :: pystr
  result_score :: 'sc
  result_metadata :: pydict
  result_text_preview :: pyval

definition match_result :: "'sc match \<Rightarrow> 'sc query_result" where
  "match_result m = \<lparr>
     result_id = match_id m,
     result_score = match_score m,
     result_metadata = match_metadata m,
     result_text_preview = dict_get (match_metadata m) (lit ''text_preview'') (PStr [])\<rparr>"

text \<open>Every exception raised inside \<open>query_similar_documents\<close> is caught there.\<close>

definition query_similar_documents ::
  "('ix, 'e, 'sc) services \<Rightarrow> 'ix vector_store \<Rightarrow> pystr \<Rightarrow> int
     \<Rightarrow> 'sc query_result list \<times> 'ix vector_store" where
  "query_similar_documents S vs query_text top_k =
     (case index_handle vs of
        None \<Rightarrow> ([], vs)
      | Some ix \<Rightarrow>
          (case generate_embedding S query_text of
             Inl e \<Rightarrow> ([], vs)
           | Inr query_embedding \<Rightarrow>
               (case index_query S ix query_embedding top_k of
                  (Inl e, ix') \<Rightarrow> ([], vs\<lparr>index_handle := Some ix'\<rparr>)
                | (Inr matches, ix') \<Rightarrow>
                    (map match_result matches, vs\<lparr>index_handle := Some ix'\<rparr>))))"

section \<open>The retrieval system (retrieval\_system.py)\<close>

record 'ix retrieval_system =
  vector_store :: "'ix vector_store"
  connected :: bool

definition initialize ::
  "('ix, 'e, 'sc) services \<Rightarrow> 'ix retrieval_system \<Rightarrow> bool \<times> 'ix retrieval_system" where
  "initialize S s =
     (case connect_to_index S (vector_store s) of
        (True, vs') \<Rightarrow> (True, s\<lparr>vector_store := vs', connected := True\<rparr>)
      | (False, vs') \<Rightarrow> (False, s\<lparr>vector_store := vs'\<rparr>))"

record chunk_info =
  ci_index :: pyval
  ci_total :: pyval

record 'sc retrieved_document =
  doc_id :: pystr
  relevance_score :: 'sc
  content_preview :: pyval
  source :: pyval
  document_type :: pyval
  chunk_info :: chunk_info

definition enhanced_result :: "'sc query_result \<Rightarrow> 'sc retrieved_document" where
  "enhanced_result result = \<lparr>
     doc_id = result_id result,
     relevance_score = result_score result,
     content_preview = result_text_preview result,
     source = dict_get (result_metadata result) (lit ''source'') (PStr (lit ''Unknown'')),
     document_type = dict_get (result_metadata result) (lit ''type'') (PStr (lit ''Unknown'')),
     chunk_info = \<lparr>
       ci_index = dict_get (result_metadata result) (lit ''chunk_index'') (PInt 0),
       ci_total = dict_get (result_metadata result) (lit ''total_chunks'') (PInt 1)\<rparr>\<rparr>"

text \<open>
  The body of the \<open>try\<close> block of \<open>retrieve_relevant_documents\<close>, and the method:
  not connected gives the empty list, an exception of the body gives the empty list.
\<close>

definition retrieve_body ::
  "unicode_db \<Rightarrow> ('ix, 'e, 'sc) services \<Rightarrow> 'ix retrieval_system \<Rightarrow> pystr \<Rightarrow> pystr \<Rightarrow> pystr
     \<Rightarrow> int \<Rightarrow> (exn + 'sc retrieved_document list) \<times> 'ix retrieval_system" where
  "retrieve_body U S s turbulence_model user_description focus_area top_k =
     (let search_query = construct_search_query U turbulence_model user_description focus_area
      in case query_similar_documents S (vector_store s) search_query top_k of
           (results, vs') \<Rightarrow> (Inr (map enhanced_result results), s\<lparr>vector_store := vs'\<rparr>))"

definition retrieve_relevant_documents ::
  "unicode_db \<Rightarrow> ('ix, 'e, 'sc) services \<Rightarrow> 'ix retrieval_system \<Rightarrow> pystr \<Rightarrow> pystr \<Rightarrow> pystr
     \<Rightarrow> int \<Rightarrow> (exn + 'sc retrieved_document list) \<times> 'ix retrieval_system" where
  "retrieve_relevant_documents U S s turbulence_model user_description focus_area top_k =
     (if \<not> connected s then (Inr [], s)
      else case retrieve_body U S s turbulence_model user_description focus_area top_k of
             (Inl e, s') \<Rightarrow> (Inr [], s')
           | (Inr enhanced_results, s') \<Rightarrow> (Inr enhanced_results, s'))"

section \<open>Context packing (retrieval\_system.py, get\_context\_for\_generation)\<close>

text \<open>
  The header of the document at position \<open>i\<close> of the enumeration. \<open>fmt\<close> is the
  rendering of a float with three decimals (\<open>:.3f\<close>), a parameter.
\<close>

definition doc_header :: "('sc \<Rightarrow> pystr) \<Rightarrow> nat \<Rightarrow> 'sc retrieved_document \<Rightarrow> pystr" where
  "doc_header fmt i doc =
     [NL] @ lit ''--- Document '' @ str_of_nat (i + 1) @ lit '' (Relevance: ''
     @ fmt (relevance_score doc) @ lit '') ---'' @ [NL]"

record 'sc pack_state =
  context_parts :: "pystr list"
  sources :: "pyval list"
  relevance_scores :: "'sc list"
  current_length :: int

definition pack_init :: "'sc pack_state" where
  "pack_init = \<lparr>context_parts = [], sources = [], relevance_scores = [], current_length = 0\<rparr>"

definition append_doc :: "pystr \<Rightarrow> 'sc retrieved_document \<Rightarrow> 'sc pack_state \<Rightarrow> 'sc pack_state" where
  "append_doc part doc st = st\<lparr>
     context_parts := context_parts st @ [part],
     sources := sources st @ [source doc],
     relevance_scores := relevance_scores st @ [relevance_score doc]\<rparr>"

text \<open>
  The \<open>for i, doc in enumerate(documents)\<close> loop, from position \<open>i\<close>. A content preview
  that is not a string makes \<open>len\<close> or the concatenation raise \<open>TypeError\<close>.
\<close>

fun pack_loop ::
  "('sc \<Rightarrow> pystr) \<Rightarrow> int \<Rightarrow> nat \<Rightarrow> 'sc retrieved_document list \<Rightarrow> 'sc pack_state
     \<Rightarrow> exn + 'sc pack_state" where
  "pack_loop fmt max_context_length i [] st = Inr st"
| "pack_loop fmt max_context_length i (doc # rest) st =
     (let header = doc_header fmt i doc in
      case content_preview doc of
        PInt n \<Rightarrow> Inl TypeError
      | PStr content \<Rightarrow>
          if current_length st + int (length header) + int (length content) > max_context_length
          then
            (if current_length st = 0
             then
               (let available_space = max_context_length - int (length header) - 50;
                    content' = slice_to content available_space @ lit ''...[truncated]''
                in Inr (append_doc (header @ content') doc st))
             else Inr st)
          else
            pack_loop fmt max_context_length (Suc i) rest
              ((append_doc (header @ content) doc st)
                 \<lparr>current_length :=
                    current_length st + int (length header) + int (length content)\<rparr>))"

record 'sc context_bundle =
  context_text :: pystr
  bundle_sources :: "pyval list"
  bundle_relevance_scores :: "'sc list"
  total_documents :: nat

definition build_context ::
  "('sc \<Rightarrow> pystr) \<Rightarrow> 'sc retrieved_document list \<Rightarrow> int \<Rightarrow> exn + 'sc context_bundle" where
  "build_context fmt documents max_context_length =
     (if documents = [] then
        Inr \<lparr>context_text = [], bundle_sources = [], bundle_relevance_scores = [],
             total_documents = 0\<rparr>
      else case pack_loop fmt max_context_length 0 documents pack_init of
             Inl e \<Rightarrow> Inl e
           | Inr st \<Rightarrow>
               Inr \<lparr>context_text = concat (context_parts st),
                    bundle_sources = sources st,
                    bundle_relevance_scores = relevance_scores st,
                    total_documents = length (sources st)\<rparr>)"

definition get_context_for_generation ::
  "unicode_db \<Rightarrow> ('sc \<Rightarrow> pystr) \<Rightarrow> ('ix, 'e, 'sc) services \<Rightarrow> 'ix retrieval_system
     \<Rightarrow> pystr \<Rightarrow> pystr \<Rightarrow> pystr \<Rightarrow> int
     \<Rightarrow> (exn + 'sc context_bundle) \<times> 'ix retrieval_system" where
  "get_context_for_generation U fmt S s turbulence_model user_description focus_area
       max_context_length =
     (case retrieve_relevant_documents U S s turbulence_model user_description focus_area 8 of
        (Inl e, s') \<Rightarrow> (Inl e, s')
      | (Inr documents, s') \<Rightarrow> (build_context fmt documents max_context_length, s'))"

section \<open>The chunker (document\_processor.py)\<close>

text \<open>
  \<open>_clean_text\<close>: \<open>re.sub(r'\s+', ' ', text)\<close> replaces each maximal run of whitespace
  by one space; \<open>re.sub(r'\n\s*\n', '\n\n', text)\<close> replaces, from left to right, a
  newline followed by whitespace up to the last newline of that whitespace run by
  two newlines; then the text is stripped.
\<close>

function collapse_ws :: "pystr \<Rightarrow> pystr" where
  "collapse_ws [] = []"
| "collapse_ws (c # cs) =
     (if isspace c then SP # collapse_ws (dropWhile isspace cs) else c # collapse_ws cs)"
  by pat_completeness auto
termination
  by (relation "measure length") (auto simp: length_dropWhile_le less_Suc_eq_le)

fun last_newline :: "pystr \<Rightarrow> nat option" where
  "last_newline [] = None"
| "last_newline (c # cs) =
     (case last_newline cs of
        Some k \<Rightarrow> Some (Suc k)
      | None \<Rightarrow> if c = NL then Some 0 else None)"

function sub_blank_lines :: "pystr \<Rightarrow> pystr" where
  "sub_blank_lines [] = []"
| "sub_blank_lines (c # cs) =
     (if c = NL then
        (case last_newline (takeWhile isspace cs) of
           Some k \<Rightarrow> NL # NL # sub_blank_lines (drop (Suc k) cs)
         | None \<Rightarrow> c # sub_blank_lines cs)
      else c # sub_blank_lines cs)"
  by pat_completeness auto
termination
  by (relation "measure length") auto

definition clean_text :: "pystr \<Rightarrow> pystr" where
  "clean_text text = strip (sub_blank_lines (collapse_ws text))"

text \<open>
  \<open>chunk_text\<close>. The splitter is langchain's \<open>RecursiveCharacterTextSplitter\<close>, a
  library outside the repository: its \<open>split_text\<close> is the parameter \<open>splitter\<close>.
\<close>

record text_chunk =
  chunk_text_field :: pystr
  chunk_metadata :: pydict

definition make_chunk :: "pydict \<Rightarrow> nat \<Rightarrow> nat \<times> pystr \<Rightarrow> text_chunk" where
  "make_chunk base total_chunks ic = \<lparr>
     chunk_text_field = snd ic,
     chunk_metadata = base(
       lit ''chunk_index'' \<mapsto> PInt (int (fst ic)),
       lit ''total_chunks'' \<mapsto> PInt (int total_chunks),
       lit ''chunk_size'' \<mapsto> PInt (int (length (snd ic))))\<rparr>"

definition chunk_text ::
  "(pystr \<Rightarrow> pystr list) \<Rightarrow> pystr \<Rightarrow> pydict option \<Rightarrow> text_chunk list" where
  "chunk_text splitter text metadata =
     (if strip text = [] then []
      else (let chunks = splitter text;
                base = (case metadata of None \<Rightarrow> Map.empty | Some m \<Rightarrow> m)
            in map (make_chunk base (length chunks)) (enumerate 0 chunks)))"

section \<open>Characterisations used by the properties\<close>

text \<open>
  The number of candidates that the packing loop embeds, from position \<open>i\<close> with
  \<open>cur\<close> characters already packed: candidates are counted in rank order while they
  fit; the first one that does not fit ends the count, and it is counted itself
  only when nothing has been packed yet (the truncation case).
\<close>

fun packed_count ::
  "('sc \<Rightarrow> pystr) \<Rightarrow> int \<Rightarrow> nat \<Rightarrow> int \<Rightarrow> 'sc retrieved_document list \<Rightarrow> nat" where
  "packed_count fmt mx i cur [] = 0"
| "packed_count fmt mx i cur (doc # rest) =
     (case content_preview doc of
        PInt n \<Rightarrow> 0
      | PStr content \<Rightarrow>
          (let need = int (length (doc_header fmt i doc)) + int (length content)
           in if cur + need > mx then (if cur = 0 then 1 else 0)
              else Suc (packed_count fmt mx (Suc i) (cur + need) rest)))"

text \<open>
  \<open>part\<close> is the text embedded for the candidate \<open>snd ranked\<close> at position \<open>fst ranked\<close>:
  its header followed by its content, whole or truncated with the marker.
\<close>

definition is_embedding ::
  "('sc \<Rightarrow> pystr) \<Rightarrow> int \<Rightarrow> pystr \<Rightarrow> nat \<times> 'sc retrieved_document \<Rightarrow> bool" where
  "is_embedding fmt mx part ranked =
     (case content_preview (snd ranked) of
        PInt n \<Rightarrow> False
      | PStr content \<Rightarrow>
          (let header = doc_header fmt (fst ranked) (snd ranked)
           in part = header @ content
              \<or> part = header @ slice_to content (mx - int (length header) - 50)
                         @ lit ''...[truncated]''))"

text \<open>
  A provider failure during a query: the embedding call raises, or the index
  query of the connected handle raises.
\<close>

definition provider_fails ::
  "('ix, 'e, 'sc) services \<Rightarrow> 'ix vector_store \<Rightarrow> pystr \<Rightarrow> int \<Rightarrow> bool" where
  "provider_fails S vs query_text top_k =
     (case embeddings_create S query_text of
        Inl e \<Rightarrow> True
      | Inr v \<Rightarrow>
          (case index_handle vs of
             None \<Rightarrow> False
           | Some ix \<Rightarrow> (case fst (index_query S ix v top_k) of Inl e \<Rightarrow> True | Inr ms \<Rightarrow> False)))"

text \<open>
  A text in which every whitespace character is a space and no two whitespace
  characters are adjacent.
\<close>

fun single_spaced :: "pystr \<Rightarrow> bool" where
  "single_spaced [] = True"
| "single_spaced [c] = (if isspace c then c = SP else True)"
| "single_spaced (c # d # cs) =
     ((if isspace c then c = SP \<and> \<not> isspace d else True) \<and> single_spaced (d # cs))"

section \<open>Concrete inputs for the examples\<close>

text \<open>
  A character database for the examples: it lowercases the ASCII letters of a
  string and keeps its other code points, and knows the letters \<open>\<epsilon>\<close> and \<open>\<omega>\<close> of the
  registry. Scores are given in thousandths, \<open>fmt_thousandths 900\<close> being the
  rendering \<open>0.900\<close> of the score 0.9.
\<close>

definition example_db :: unicode_db where
  "example_db = \<lparr>str_lower = map ascii_lower, cp_isalpha = (\<lambda>c. c = EPSILON \<or> c = OMEGA)\<rparr>"

definition fmt_thousandths :: "nat \<Rightarrow> pystr" where
  "fmt_thousandths n =
     str_of_nat (n div 1000) @ lit ''.''
     @ [48 + n div 100 mod 10, 48 + n div 10 mod 10, 48 + n mod 10]"

text \<open>
  Services that answer every query with the first \<open>top_k\<close> of the given hits,
  services whose embedding call raises, and services whose index query raises.
\<close>

definition example_services :: "nat match list \<Rightarrow> (unit, unit, nat) services" where
  "example_services hits = \<lparr>
     list_index_names = Inr [lit ''turbulence-docs''],
     open_index = (\<lambda>name. Inr ()),
     embeddings_create = (\<lambda>text. Inr ()),
     index_query = (\<lambda>ix v top_k. (Inr (take (nat top_k) hits), ix))\<rparr>"

definition embedding_down :: "(unit, unit, nat) services" where
  "embedding_down = \<lparr>
     list_index_names = Inr [lit ''turbulence-docs''],
     open_index = (\<lambda>name. Inr ()),
     embeddings_create = (\<lambda>text. Inl (Exception (lit ''embedding failed''))),
     index_query = (\<lambda>ix v top_k. (Inr [], ix))\<rparr>"

definition index_down :: "(unit, unit, nat) services" where
  "index_down = \<lparr>
     list_index_names = Inl (Exception (lit ''index unreachable'')),
     open_index = (\<lambda>name. Inl (Exception (lit ''index unreachable''))),
     embeddings_create = (\<lambda>text. Inr ()),
     index_query = (\<lambda>ix v top_k. (Inl (Exception (lit ''index unreachable'')), ix))\<rparr>"

text \<open>The retrieval system as \<open>__init__\<close> leaves it, and after a successful \<open>initialize\<close>.\<close>

definition fresh_system :: "unit retrieval_system" where
  "fresh_system = \<lparr>
     vector_store = \<lparr>index_name = lit ''turbulence-docs'', index_handle = None\<rparr>,
     connected = False\<rparr>"

definition connected_system :: "unit retrieval_system" where
  "connected_system = \<lparr>
     vector_store = \<lparr>index_name = lit ''turbulence-docs'', index_handle = Some ()\<rparr>,
     connected = True\<rparr>"

text \<open>
  An index hit with a score (in thousandths), a source and a text preview, and a
  hit whose metadata is empty.
\<close>

definition hit :: "nat \<Rightarrow> string \<Rightarrow> pystr \<Rightarrow> nat match" where
  "hit score src preview = \<lparr>
     match_id = lit ''doc_1700000000_0'',
     match_score = score,
     match_metadata = [lit ''source'' \<mapsto> PStr (lit src), lit ''text_preview'' \<mapsto> PStr preview]\<rparr>"

definition bare_hit :: "nat match" where
  "bare_hit = \<lparr>match_id = lit ''doc_1700000000_0'', match_score = 900,
     match_metadata = Map.empty\<rparr>"

text \<open>
  A splitter for the examples: a text shorter than the chunk size comes back from
  the recursive splitter as one chunk, stripped.
\<close>

definition one_chunk :: "pystr \<Rightarrow> pystr list" where
  "one_chunk text = [strip text]"

text \<open>
  One hit with a preview of 200 characters; three hits in rank order, the second
  with a long preview and the third with a preview of one character; and the
  documents that \<open>retrieve_relevant_documents\<close> makes of a list of hits.
\<close>

definition long_hit :: "nat match" where
  "long_hit = hit 900 ''k_epsilon_guide.pdf'' (replicate 200 120)"

definition three_hits :: "nat match list" where
  "three_hits = [
     hit 900 ''k_epsilon_guide.pdf'' (replicate 20 120),
     hit 700 ''sst_notes.pdf'' (replicate 50 121),
     hit 500 ''wall_functions.pdf'' (replicate 1 122)]"

definition retrieved :: "nat match list \<Rightarrow> nat retrieved_document list" where
  "retrieved hits = map enhanced_result (map match_result hits)"

section \<open>Properties\<close>

subsection \<open>Literals\<close>

lemma length_lit: "length (lit s) = length s"
  by (simp add: lit_def)

subsection \<open>The query length\<close>

lemma get_model_key_length: "get_model name = Some model_info \<Longrightarrow> length name \<le> 16"
  by (auto simp: get_model_def TURBULENCE_MODELS_def length_lit split: if_splits)

lemma construct_search_query_known:
  "get_model name = Some model_info \<Longrightarrow> length (construct_search_query U name d f) \<le> 500"
  by (simp add: construct_search_query_def)

lemma construct_search_query_unknown:
  "get_model name = None \<Longrightarrow>
     construct_search_query U name d f = name @ lit '' turbulence model parameters '' @ d"
  by (simp add: construct_search_query_def)

text \<open>
  C1. The claim: the query returned by \<open>construct_search_query\<close> has at most 500
  characters for every model name, known or unknown. The code caps the length on
  the path of a known model only; the fallback for an unknown model returns
  before the cap. For the unknown model name \<open>my_model\<close> and a description of
  500 characters the query has 537 characters.
\<close>

theorem construct_search_query_unknown_model_uncapped:
  "get_model (lit ''my_model'') = None
   \<and> length (construct_search_query U (lit ''my_model'') (replicate 500 97) []) = 537"
proof -
  have unknown: "get_model (lit ''my_model'') = None"
    by (simp add: get_model_def TURBULENCE_MODELS_def lit_def)
  then show ?thesis
    by (simp add: construct_search_query_unknown length_lit)
qed

subsection \<open>Synonym expansion\<close>

lemma expand_query_keeps_text:
  "\<exists>suffix. expand_query_with_synonyms U base_query = base_query @ suffix"
  by (simp add: expand_query_with_synonyms_def Let_def)

lemma ascii_lower_not_upper: "ascii_lower c \<noteq> 83"
  by (cases "65 \<le> c \<and> c \<le> 90") (auto simp: ascii_lower_def)

lemma startswith_Cons_not: "c \<notin> set s \<Longrightarrow> \<not> startswith s (c # t)"
  by (cases s) auto

lemma contains_needs_first: "c \<notin> set s \<Longrightarrow> \<not> contains s (c # t)"
  by (induction s) auto

lemma lowered_ascii_never_contains_SST:
  "list_all is_ascii q \<Longrightarrow> \<not> contains (lower U q) (lit ''SST'')"
proof -
  assume "list_all is_ascii q"
  then have "lower U q = map ascii_lower q"
    by (simp add: lower_def)
  moreover have "83 \<notin> set (map ascii_lower q)"
    using ascii_lower_not_upper by auto
  ultimately show ?thesis
    by (simp add: lit_def contains_needs_first)
qed

text \<open>
  C7. The claim: every anchor term of the expansion table that occurs in the
  query, ignoring case, has up to 2 of its synonyms appended. The query is
  lowercased before the search, and the anchor \<open>SST\<close> is written in upper case
  in the table, so it is never found: the query \<open>SST\<close> holds the anchor and comes
  back unchanged, while the lower-case anchor \<open>wall\<close> is expanded.
\<close>

theorem expand_query_misses_SST:
  "contains (lit ''SST'') (lit ''SST'')
   \<and> expand_query_with_synonyms U (lit ''SST'') = lit ''SST''
   \<and> expand_query_with_synonyms U (lit ''Wall'') = lit ''Wall near-wall wall treatment''"
  by (simp add: expand_query_with_synonyms_def expansions_def lower_def lit_def
      is_ascii_def ascii_lower_def SP_def)

subsection \<open>Retrieval always returns a list\<close>

lemma retrieve_body_returns:
  "\<exists>docs s'. retrieve_body U S s m d f k = (Inr docs, s')"
  by (simp add: retrieve_body_def Let_def split: prod.splits)

lemma retrieve_returns:
  "\<exists>docs. fst (retrieve_relevant_documents U S s m d f k) = Inr docs"
proof (cases "connected s")
  case False
  then show ?thesis by (simp add: retrieve_relevant_documents_def)
next
  case True
  obtain docs s' where "retrieve_body U S s m d f k = (Inr docs, s')"
    using retrieve_body_returns by blast
  with True show ?thesis by (simp add: retrieve_relevant_documents_def)
qed

lemma get_context_is_build_context:
  "fst (retrieve_relevant_documents U S s m d f 8) = Inr documents \<Longrightarrow>
     fst (get_context_for_generation U fmt S s m d f mx) = build_context fmt documents mx"
  by (cases "retrieve_relevant_documents U S s m d f 8")
     (simp add: get_context_for_generation_def)

subsection \<open>The packing loop\<close>

lemma packed_count_le: "packed_count fmt mx i cur docs \<le> length docs"
  by (induction docs arbitrary: i cur) (auto split: pyval.splits simp: Let_def)

lemma pack_loop_lists:
  "pack_loop fmt mx i docs st = Inr st' \<Longrightarrow>
     sources st' = sources st @ map source (take (packed_count fmt mx i (current_length st) docs) docs)
   \<and> relevance_scores st' = relevance_scores st
        @ map relevance_score (take (packed_count fmt mx i (current_length st) docs) docs)"
proof (induction docs arbitrary: i st)
  case Nil
  then show ?case by simp
next
  case (Cons doc rest)
  show ?case
  proof (cases "content_preview doc")
    case (PInt n)
    with Cons.prems show ?thesis by simp
  next
    case (PStr content)
    let ?need = "int (length (doc_header fmt i doc)) + int (length content)"
    show ?thesis
    proof (cases "current_length st + ?need > mx")
      case True
      with Cons.prems PStr show ?thesis
        by (auto simp: Let_def append_doc_def split: if_splits)
    next
      case False
      let ?st = "(append_doc (doc_header fmt i doc @ content) doc st)
                   \<lparr>current_length := current_length st + ?need\<rparr>"
      from Cons.prems PStr False have "pack_loop fmt mx (Suc i) rest ?st = Inr st'"
        by (simp add: Let_def add.assoc)
      from Cons.IH[OF this] PStr False show ?thesis
        by (simp add: Let_def append_doc_def add.assoc)
    qed
  qed
qed

lemma pack_loop_parts:
  "pack_loop fmt mx i docs st = Inr st' \<Longrightarrow>
     \<exists>ps. context_parts st' = context_parts st @ ps
        \<and> list_all2 (is_embedding fmt mx) ps
             (enumerate i (take (packed_count fmt mx i (current_length st) docs) docs))"
proof (induction docs arbitrary: i st)
  case Nil
  then show ?case by simp
next
  case (Cons doc rest)
  show ?case
  proof (cases "content_preview doc")
    case (PInt n)
    with Cons.prems show ?thesis by simp
  next
    case (PStr content)
    let ?need = "int (length (doc_header fmt i doc)) + int (length content)"
    show ?thesis
    proof (cases "current_length st + ?need > mx")
      case True
      with Cons.prems PStr show ?thesis
        by (auto simp: Let_def append_doc_def is_embedding_def split: if_splits)
    next
      case False
      let ?st = "(append_doc (doc_header fmt i doc @ content) doc st)
                   \<lparr>current_length := current_length st + ?need\<rparr>"
      from Cons.prems PStr False have "pack_loop fmt mx (Suc i) rest ?st = Inr st'"
        by (simp add: Let_def add.assoc)
      from Cons.IH[OF this] obtain ps where
        ps: "context_parts st' = context_parts ?st @ ps"
            "list_all2 (is_embedding fmt mx) ps
               (enumerate (Suc i) (take (packed_count fmt mx (Suc i) (current_length ?st) rest) rest))"
        by blast
      have "context_parts st' = context_parts st @ ((doc_header fmt i doc @ content) # ps)"
        using ps(1) by (simp add: append_doc_def)
      moreover have "list_all2 (is_embedding fmt mx) ((doc_header fmt i doc @ content) # ps)
          (enumerate i (take (packed_count fmt mx i (current_length st) (doc # rest)) (doc # rest)))"
        using ps(2) PStr False by (simp add: Let_def is_embedding_def append_doc_def add.assoc)
      ultimately show ?thesis by blast
    qed
  qed
qed

lemma build_context_lists:
  assumes "build_context fmt documents mx = Inr b"
  shows "total_documents b = packed_count fmt mx 0 0 documents"
    and "bundle_sources b = map source (take (total_documents b) documents)"
    and "bundle_relevance_scores b = map relevance_score (take (total_documents b) documents)"
proof -
  have "total_documents b = packed_count fmt mx 0 0 documents
      \<and> bundle_sources b = map source (take (total_documents b) documents)
      \<and> bundle_relevance_scores b = map relevance_score (take (total_documents b) documents)"
  proof (cases "documents = []")
    case True
    with assms show ?thesis by (auto simp: build_context_def)
  next
    case False
    with assms obtain st where
      st: "pack_loop fmt mx 0 documents pack_init = Inr st"
      and b: "b = \<lparr>context_text = concat (context_parts st), bundle_sources = sources st,
                   bundle_relevance_scores = relevance_scores st,
                   total_documents = length (sources st)\<rparr>"
      by (auto simp: build_context_def split: sum.splits)
    have n: "packed_count fmt mx 0 0 documents \<le> length documents"
      by (rule packed_count_le)
    from pack_loop_lists[OF st] b n show ?thesis
      by (simp add: pack_init_def min_def)
  qed
  then show "total_documents b = packed_count fmt mx 0 0 documents"
    and "bundle_sources b = map source (take (total_documents b) documents)"
    and "bundle_relevance_scores b = map relevance_score (take (total_documents b) documents)"
    by simp_all
qed

lemma build_context_text:
  assumes "build_context fmt documents mx = Inr b"
  shows "\<exists>parts. context_text b = concat parts
           \<and> list_all2 (is_embedding fmt mx) parts
                (enumerate 0 (take (total_documents b) documents))"
proof (cases "documents = []")
  case True
  with assms have "context_text b = concat []" "total_documents b = 0"
    by (auto simp: build_context_def)
  then show ?thesis by (metis True enumerate_simps(1) list_all2_Nil take_Nil)
next
  case False
  with assms obtain st where
    st: "pack_loop fmt mx 0 documents pack_init = Inr st"
    and b: "context_text b = concat (context_parts st)"
    by (auto simp: build_context_def split: sum.splits)
  from pack_loop_parts[OF st] obtain ps where
    "context_parts st = ps"
    "list_all2 (is_embedding fmt mx) ps
       (enumerate 0 (take (packed_count fmt mx 0 0 documents) documents))"
    by (auto simp: pack_init_def)
  with b build_context_lists(1)[OF assms] show ?thesis by auto
qed

subsection \<open>The context budget\<close>

lemma doc_header_nonempty: "0 < length (doc_header fmt i doc)"
  by (simp add: doc_header_def)

lemma length_slice_to_le: "0 \<le> n \<Longrightarrow> int (length (slice_to xs n)) \<le> n"
  by (simp add: slice_to_def)

lemma pack_loop_within_budget:
  "pack_loop fmt mx i docs st = Inr st' \<Longrightarrow>
   int (length (concat (context_parts st))) = current_length st \<Longrightarrow>
   current_length st \<le> mx \<Longrightarrow>
   current_length st \<noteq> 0 \<or> docs = [] \<or> int (length (doc_header fmt i (hd docs))) + 50 \<le> mx \<Longrightarrow>
   int (length (concat (context_parts st'))) \<le> mx"
proof (induction docs arbitrary: i st)
  case Nil
  then show ?case by simp
next
  case (Cons doc rest)
  show ?case
  proof (cases "content_preview doc")
    case (PInt n)
    with Cons.prems show ?thesis by simp
  next
    case (PStr content)
    let ?h = "doc_header fmt i doc"
    let ?need = "int (length ?h) + int (length content)"
    show ?thesis
    proof (cases "current_length st + ?need > mx")
      case True
      show ?thesis
      proof (cases "current_length st = 0")
        case False
        with Cons.prems PStr True show ?thesis by (simp add: Let_def)
      next
        case zero: True
        let ?a = "mx - int (length ?h) - 50"
        from Cons.prems(4) zero have a: "0 \<le> ?a" by simp
        from Cons.prems(1) PStr True zero
        have st': "st' = append_doc (?h @ slice_to content ?a @ lit ''...[truncated]'') doc st"
          by (simp add: Let_def)
        have cut: "int (length (slice_to content ?a)) \<le> ?a"
          using a by (rule length_slice_to_le)
        have before: "int (length (concat (context_parts st))) = 0"
          using Cons.prems(2) zero by (simp only:)
        have "int (length (concat (context_parts st')))
            = int (length (concat (context_parts st))) + int (length ?h)
              + int (length (slice_to content ?a)) + 14"
          by (simp add: st' append_doc_def length_lit)
        with cut before show ?thesis by linarith
      qed
    next
      case False
      let ?st = "(append_doc (?h @ content) doc st)\<lparr>current_length := current_length st + ?need\<rparr>"
      from Cons.prems(1) PStr False have run: "pack_loop fmt mx (Suc i) rest ?st = Inr st'"
        by (simp add: Let_def add.assoc)
      have len: "int (length (concat (context_parts ?st))) = current_length ?st"
        using Cons.prems(2) by (simp add: append_doc_def)
      have le: "current_length ?st \<le> mx"
        using False by simp
      have "0 \<le> current_length st"
        using Cons.prems(2) by (metis of_nat_0_le_iff)
      moreover have "0 < int (length ?h)"
        using doc_header_nonempty[of fmt i doc] by (simp only: of_nat_0_less_iff)
      ultimately have "0 < current_length st + ?need"
        by linarith
      then have pos: "current_length ?st \<noteq> 0"
        by simp
      from Cons.IH[OF run len le] pos show ?thesis by blast
    qed
  qed
qed

text \<open>
  The budget is kept when it is not negative and leaves, for the first candidate,
  room for the header and the 50 characters that the truncation reserves.
\<close>

lemma build_context_within_budget:
  assumes "build_context fmt documents mx = Inr b"
    and "0 \<le> mx"
    and "documents = [] \<or> int (length (doc_header fmt 0 (hd documents))) + 50 \<le> mx"
  shows "int (length (context_text b)) \<le> mx"
proof (cases "documents = []")
  case True
  with assms(1,2) show ?thesis by (auto simp: build_context_def)
next
  case False
  with assms(1) obtain st where
    st: "pack_loop fmt mx 0 documents pack_init = Inr st"
    and b: "context_text b = concat (context_parts st)"
    by (auto simp: build_context_def split: sum.splits)
  have "int (length (concat (context_parts st))) \<le> mx"
    using st
  proof (rule pack_loop_within_budget)
    show "int (length (concat (context_parts pack_init))) = current_length pack_init"
      by (simp add: pack_init_def)
    show "current_length pack_init \<le> mx"
      using assms(2) by (simp add: pack_init_def)
    show "current_length pack_init \<noteq> 0 \<or> documents = []
        \<or> int (length (doc_header fmt 0 (hd documents))) + 50 \<le> mx"
      using assms(3) by blast
  qed
  with b show ?thesis by simp
qed

subsection \<open>Evaluation of the examples\<close>

lemma str_of_nat_digit: "n < 10 \<Longrightarrow> str_of_nat n = [48 + n]"
  by (subst str_of_nat.simps) simp

lemma example_query:
  "query_similar_documents (example_services hits) (vector_store connected_system) q 8
     = (map match_result (take 8 hits), vector_store connected_system)"
  by (simp add: query_similar_documents_def example_services_def connected_system_def
      generate_embedding_def)

lemma example_retrieve:
  "fst (retrieve_relevant_documents U (example_services hits) connected_system m d f 8)
     = Inr (retrieved (take 8 hits))"
  by (simp add: retrieve_relevant_documents_def retrieve_body_def example_query Let_def
      retrieved_def)
     (simp add: connected_system_def)

lemma example_header:
  "doc_header fmt_thousandths i \<lparr>doc_id = a, relevance_score = 900, content_preview = b,
      source = c, document_type = d, chunk_info = e\<rparr>
   = [NL] @ lit ''--- Document '' @ str_of_nat (i + 1) @ lit '' (Relevance: 0.900) ---'' @ [NL]"
  by (simp add: doc_header_def fmt_thousandths_def str_of_nat_digit lit_def)

lemma retrieved_long_hit:
  "retrieved [long_hit] = [\<lparr>doc_id = lit ''doc_1700000000_0'', relevance_score = 900,
      content_preview = PStr (replicate 200 120),
      source = PStr (lit ''k_epsilon_guide.pdf''),
      document_type = PStr (lit ''Unknown''),
      chunk_info = \<lparr>ci_index = PInt 0, ci_total = PInt 1\<rparr>\<rparr>]"
  by (simp add: retrieved_def long_hit_def hit_def match_result_def enhanced_result_def
      dict_get_def lit_def)

lemma long_hit_context_length:
  "map_sum id (length \<circ> context_text) (build_context fmt_thousandths (retrieved [long_hit]) 60)
     = Inr 224"
  by (simp add: retrieved_long_hit build_context_def pack_init_def example_header
      str_of_nat_digit length_lit append_doc_def slice_to_def Let_def)

text \<open>
  C2. The claim: \<open>context_text\<close> is never longer than \<open>max_context_length\<close>, the
  truncation of the first document included. The truncation takes
  \<open>content[:max_context_length - len(header) - 50]\<close>; with a budget below the header
  length plus 50 the bound is negative and the slice counts from the end. For one
  retrieved document with a preview of 200 characters and a budget of 60
  characters the context has 224 characters (header 39, content 171, marker 14).
\<close>

theorem context_exceeds_small_budget:
  "map_sum id (length \<circ> context_text)
     (fst (get_context_for_generation example_db fmt_thousandths (example_services [long_hit])
        connected_system (lit ''k_epsilon'') (lit ''airfoil flow'') (lit ''separation'') 60))
   = Inr 224"
proof -
  have "fst (retrieve_relevant_documents example_db (example_services [long_hit])
          connected_system (lit ''k_epsilon'') (lit ''airfoil flow'') (lit ''separation'') 8)
        = Inr (retrieved [long_hit])"
    by (simp add: example_retrieve)
  from get_context_is_build_context[OF this] show ?thesis
    by (simp only: long_hit_context_length)
qed






text \<open>
  C4. The bundle is well formed: \<open>sources\<close> and \<open>relevance_scores\<close> have
  \<open>total_documents\<close> entries each, and they are the sources and scores of the first
  \<open>total_documents\<close> candidates, which are the documents embedded in \<open>context_text\<close>,
  in this order: \<open>context_text\<close> is the concatenation of one part per such candidate,
  its header followed by its content (whole, or truncated with the marker).
\<close>

theorem bundle_well_formed:
  assumes "fst (retrieve_relevant_documents U S s m d f 8) = Inr documents"
    and "fst (get_context_for_generation U fmt S s m d f mx) = Inr b"
  shows "length (bundle_sources b) = total_documents b
     \<and> length (bundle_relevance_scores b) = total_documents b
     \<and> bundle_sources b = map source (take (total_documents b) documents)
     \<and> bundle_relevance_scores b = map relevance_score (take (total_documents b) documents)
     \<and> (\<exists>parts. context_text b = concat parts
            \<and> list_all2 (is_embedding fmt mx) parts
                 (enumerate 0 (take (total_documents b) documents)))"
proof -
  from assms have b: "build_context fmt documents mx = Inr b"
    by (simp add: get_context_is_build_context)
  have n: "total_documents b \<le> length documents"
    using build_context_lists(1)[OF b] packed_count_le[of fmt mx 0 0 documents] by simp
  from build_context_lists(2,3)[OF b] build_context_text[OF b] n
  show ?thesis by (simp add: min_def)
qed

theorem bundle_well_formed_witness:
  "fst (retrieve_relevant_documents example_db (example_services [long_hit]) connected_system
          (lit ''k_epsilon'') (lit ''airfoil flow'') (lit ''separation'') 8)
     = Inr (retrieved [long_hit])
   \<and> (\<exists>b. fst (get_context_for_generation example_db fmt_thousandths (example_services [long_hit])
            connected_system (lit ''k_epsilon'') (lit ''airfoil flow'') (lit ''separation'') 4000)
          = Inr b
        \<and> total_documents b = 1
        \<and> bundle_sources b = [PStr (lit ''k_epsilon_guide.pdf'')]
        \<and> bundle_relevance_scores b = [900]
        \<and> length (context_text b) = 239
        \<and> (\<exists>parts. context_text b = concat parts
            \<and> list_all2 (is_embedding fmt_thousandths 4000) parts
                 (enumerate 0 (take (total_documents b) (retrieved [long_hit])))))"
proof -
  let ?r = "retrieve_relevant_documents example_db (example_services [long_hit])
      connected_system (lit ''k_epsilon'') (lit ''airfoil flow'') (lit ''separation'') 8"
  let ?g = "get_context_for_generation example_db fmt_thousandths (example_services [long_hit])
      connected_system (lit ''k_epsilon'') (lit ''airfoil flow'') (lit ''separation'') 4000"
  let ?b = "\<lparr>context_text = [NL] @ lit ''--- Document 1 (Relevance: 0.900) ---'' @ [NL]
                 @ replicate 200 120,
             bundle_sources = [PStr (lit ''k_epsilon_guide.pdf'')],
             bundle_relevance_scores = [900::nat],
             total_documents = 1\<rparr>"
  have r: "fst ?r = Inr (retrieved [long_hit])"
    by (simp add: example_retrieve)
  have "build_context fmt_thousandths (retrieved [long_hit]) 4000 = Inr ?b"
    by (simp add: retrieved_long_hit build_context_def pack_init_def example_header
      str_of_nat_digit append_doc_def Let_def lit_def)
  then have g: "fst ?g = Inr ?b"
    using get_context_is_build_context[OF r] by simp
  from bundle_well_formed[OF r g] have
    "\<exists>parts. context_text ?b = concat parts
        \<and> list_all2 (is_embedding fmt_thousandths 4000) parts
             (enumerate 0 (take (total_documents ?b) (retrieved [long_hit])))"
    by blast
  moreover have "length (context_text ?b) = 239"
    by (simp add: length_lit)
  ultimately show ?thesis using r g by simp
qed

text \<open>
  C5. When retrieval yields no document, the bundle is the empty one: empty
  \<open>context_text\<close>, no sources, no scores, \<open>total_documents = 0\<close>, returned as a
  value and not as an exception.
\<close>

theorem no_documents_empty_bundle:
  assumes "fst (retrieve_relevant_documents U S s m d f 8) = Inr []"
  shows "fst (get_context_for_generation U fmt S s m d f mx)
     = Inr \<lparr>context_text = [], bundle_sources = [], bundle_relevance_scores = [],
            total_documents = 0\<rparr>"
  using get_context_is_build_context[OF assms] by (simp add: build_context_def)

theorem no_documents_empty_bundle_witness:
  "fst (retrieve_relevant_documents example_db (example_services []) connected_system
          (lit ''k_epsilon'') (lit ''airfoil flow'') (lit ''separation'') 8) = Inr []
   \<and> fst (get_context_for_generation example_db fmt_thousandths (example_services [])
          connected_system (lit ''k_epsilon'') (lit ''airfoil flow'') (lit ''separation'') 4000)
     = Inr \<lparr>context_text = [], bundle_sources = [], bundle_relevance_scores = [],
            total_documents = 0\<rparr>"
proof -
  have r: "fst (retrieve_relevant_documents example_db (example_services []) connected_system
          (lit ''k_epsilon'') (lit ''airfoil flow'') (lit ''separation'') 8) = Inr []"
    by (simp add: example_retrieve retrieved_def)
  from no_documents_empty_bundle[OF r] r show ?thesis by simp
qed

subsection \<open>Failures of retrieval\<close>

lemma query_fails_empty:
  "provider_fails S vs q k \<Longrightarrow> fst (query_similar_documents S vs q k) = []"
  by (auto simp: provider_fails_def query_similar_documents_def generate_embedding_def
      split: sum.splits option.splits prod.splits)

text \<open>
  C6. \<open>retrieve_relevant_documents\<close> never raises: it returns a list for every
  input. The list is empty when the retriever is not connected, and when the
  embedding provider or the vector index raises during the query.
\<close>

theorem retrieve_recovers_from_failures:
  "(\<exists>docs. fst (retrieve_relevant_documents U S s m d f k) = Inr docs)
   \<and> (\<not> connected s \<longrightarrow> fst (retrieve_relevant_documents U S s m d f k) = Inr [])
   \<and> (provider_fails S (vector_store s) (construct_search_query U m d f) k
        \<longrightarrow> fst (retrieve_relevant_documents U S s m d f k) = Inr [])"
proof (intro conjI impI)
  show "\<exists>docs. fst (retrieve_relevant_documents U S s m d f k) = Inr docs"
    by (rule retrieve_returns)
next
  assume "\<not> connected s"
  then show "fst (retrieve_relevant_documents U S s m d f k) = Inr []"
    by (simp add: retrieve_relevant_documents_def)
next
  assume "provider_fails S (vector_store s) (construct_search_query U m d f) k"
  from query_fails_empty[OF this]
  show "fst (retrieve_relevant_documents U S s m d f k) = Inr []"
    by (cases "query_similar_documents S (vector_store s) (construct_search_query U m d f) k")
       (simp add: retrieve_relevant_documents_def retrieve_body_def Let_def)
qed

text \<open>
  The three cases at concrete inputs: a retriever that was never initialised, an
  embedding provider that raises, and an index whose query raises.
\<close>

theorem retrieve_recovers_from_failures_witness:
  "\<not> connected fresh_system
   \<and> fst (retrieve_relevant_documents example_db (example_services three_hits) fresh_system
          (lit ''k_epsilon'') (lit ''airfoil flow'') [] 5) = Inr []
   \<and> provider_fails embedding_down (vector_store connected_system)
        (construct_search_query example_db (lit ''k_epsilon'') (lit ''airfoil flow'') []) 5
   \<and> fst (retrieve_relevant_documents example_db embedding_down connected_system
          (lit ''k_epsilon'') (lit ''airfoil flow'') [] 5) = Inr []
   \<and> provider_fails index_down (vector_store connected_system)
        (construct_search_query example_db (lit ''k_epsilon'') (lit ''airfoil flow'') []) 5
   \<and> fst (retrieve_relevant_documents example_db index_down connected_system
          (lit ''k_epsilon'') (lit ''airfoil flow'') [] 5) = Inr []"
proof -
  have a: "\<not> connected fresh_system"
    by (simp add: fresh_system_def)
  have b: "provider_fails embedding_down (vector_store connected_system)
        (construct_search_query example_db (lit ''k_epsilon'') (lit ''airfoil flow'') []) 5"
    by (simp add: provider_fails_def embedding_down_def)
  have c: "provider_fails index_down (vector_store connected_system)
        (construct_search_query example_db (lit ''k_epsilon'') (lit ''airfoil flow'') []) 5"
    by (simp add: provider_fails_def index_down_def connected_system_def)
  from a b c
    retrieve_recovers_from_failures[of example_db "example_services three_hits" fresh_system
      "lit ''k_epsilon''" "lit ''airfoil flow''" "[]" 5]
    retrieve_recovers_from_failures[of example_db embedding_down connected_system
      "lit ''k_epsilon''" "lit ''airfoil flow''" "[]" 5]
    retrieve_recovers_from_failures[of example_db index_down connected_system
      "lit ''k_epsilon''" "lit ''airfoil flow''" "[]" 5]
  show ?thesis by blast
qed

subsection \<open>Metadata defaults\<close>

lemma retrieve_of_index_response:
  assumes "connected s"
    and "index_handle (vector_store s) = Some ix"
    and "embeddings_create S (construct_search_query U m d f) = Inr v"
    and "fst (index_query S ix v k) = Inr ms"
  shows "fst (retrieve_relevant_documents U S s m d f k)
     = Inr (map enhanced_result (map match_result ms))"
proof -
  obtain r ix' where q: "index_query S ix v k = (r, ix')"
    by (cases "index_query S ix v k")
  with assms(4) have r: "r = Inr ms" by simp
  from assms(2,3) q r
  have "fst (query_similar_documents S (vector_store s) (construct_search_query U m d f) k)
      = map match_result ms"
    by (simp add: query_similar_documents_def generate_embedding_def)
  with assms(1) show ?thesis
    by (cases "query_similar_documents S (vector_store s) (construct_search_query U m d f) k")
       (simp add: retrieve_relevant_documents_def retrieve_body_def Let_def)
qed

lemma bare_hit_retrieved:
  "fst (retrieve_relevant_documents example_db (example_services [bare_hit]) connected_system
          (lit ''k_epsilon'') (lit ''airfoil flow'') [] 5) = Inr (retrieved [bare_hit])"
proof -
  have "query_similar_documents (example_services [bare_hit]) (vector_store connected_system)
          q 5 = (map match_result [bare_hit], vector_store connected_system)" for q
    by (simp add: query_similar_documents_def example_services_def connected_system_def
        generate_embedding_def)
  then show ?thesis
    by (simp add: retrieve_relevant_documents_def retrieve_body_def Let_def retrieved_def)
       (simp add: connected_system_def)
qed

text \<open>
  C9, as the claim states it: every unresolved metadata field, the chunk
  information included, defaults to the string \<open>Unknown\<close>. For a hit without
  metadata the chunk index of the retrieved document is the integer 0 and the
  chunk total the integer 1.
\<close>

theorem chunk_info_defaults_not_Unknown:
  "fst (retrieve_relevant_documents example_db (example_services [bare_hit]) connected_system
          (lit ''k_epsilon'') (lit ''airfoil flow'') [] 5) = Inr (retrieved [bare_hit])
   \<and> map (ci_index \<circ> chunk_info) (retrieved [bare_hit]) = [PInt 0]
   \<and> map (ci_total \<circ> chunk_info) (retrieved [bare_hit]) = [PInt 1]
   \<and> PInt 0 \<noteq> PStr (lit ''Unknown'') \<and> PInt 1 \<noteq> PStr (lit ''Unknown'')"
  using bare_hit_retrieved
  by (simp add: retrieved_def bare_hit_def match_result_def enhanced_result_def dict_get_def)

text \<open>
  C9, amended: when the retriever is connected and the index answers the query
  with the hits \<open>ms\<close>, the retrieved documents are one per hit, in order, and in
  each of them a \<open>source\<close> or \<open>type\<close> that the hit's metadata lacks defaults to the
  string \<open>Unknown\<close>, a missing \<open>chunk_index\<close> to the integer 0 and a missing
  \<open>total_chunks\<close> to the integer 1; a field that is present is passed on.
\<close>

theorem retrieved_metadata_defaults:
  assumes "connected s"
    and "index_handle (vector_store s) = Some ix"
    and "embeddings_create S (construct_search_query U m d f) = Inr v"
    and "fst (index_query S ix v k) = Inr ms"
  shows "\<exists>docs. fst (retrieve_relevant_documents U S s m d f k) = Inr docs
     \<and> list_all2 (\<lambda>doc h.
          source doc = (case match_metadata h (lit ''source'') of
                          None \<Rightarrow> PStr (lit ''Unknown'') | Some x \<Rightarrow> x)
        \<and> document_type doc = (case match_metadata h (lit ''type'') of
                          None \<Rightarrow> PStr (lit ''Unknown'') | Some x \<Rightarrow> x)
        \<and> ci_index (chunk_info doc) = (case match_metadata h (lit ''chunk_index'') of
                          None \<Rightarrow> PInt 0 | Some x \<Rightarrow> x)
        \<and> ci_total (chunk_info doc) = (case match_metadata h (lit ''total_chunks'') of
                          None \<Rightarrow> PInt 1 | Some x \<Rightarrow> x)) docs ms"
proof -
  have "list_all2 (\<lambda>doc h.
          source doc = (case match_metadata h (lit ''source'') of
                          None \<Rightarrow> PStr (lit ''Unknown'') | Some x \<Rightarrow> x)
        \<and> document_type doc = (case match_metadata h (lit ''type'') of
                          None \<Rightarrow> PStr (lit ''Unknown'') | Some x \<Rightarrow> x)
        \<and> ci_index (chunk_info doc) = (case match_metadata h (lit ''chunk_index'') of
                          None \<Rightarrow> PInt 0 | Some x \<Rightarrow> x)
        \<and> ci_total (chunk_info doc) = (case match_metadata h (lit ''total_chunks'') of
                          None \<Rightarrow> PInt 1 | Some x \<Rightarrow> x))
        (map enhanced_result (map match_result ms)) ms"
    by (simp add: list_all2_map1 list_all2_same enhanced_result_def match_result_def
        dict_get_def)
  with retrieve_of_index_response[OF assms] show ?thesis by blast
qed

theorem retrieved_metadata_defaults_witness:
  "connected connected_system
   \<and> index_handle (vector_store connected_system) = Some ()
   \<and> embeddings_create (example_services [bare_hit])
        (construct_search_query example_db (lit ''k_epsilon'') (lit ''airfoil flow'') []) = Inr ()
   \<and> fst (index_query (example_services [bare_hit]) () () 5) = Inr [bare_hit]
   \<and> match_metadata bare_hit (lit ''source'') = None
   \<and> match_metadata bare_hit (lit ''type'') = None
   \<and> match_metadata bare_hit (lit ''chunk_index'') = None
   \<and> match_metadata bare_hit (lit ''total_chunks'') = None
   \<and> (\<exists>doc. fst (retrieve_relevant_documents example_db (example_services [bare_hit])
                 connected_system (lit ''k_epsilon'') (lit ''airfoil flow'') [] 5) = Inr [doc]
          \<and> source doc = PStr (lit ''Unknown'')
          \<and> document_type doc = PStr (lit ''Unknown'')
          \<and> ci_index (chunk_info doc) = PInt 0
          \<and> ci_total (chunk_info doc) = PInt 1)"
proof -
  have h1: "connected connected_system"
    and h2: "index_handle (vector_store connected_system) = Some ()"
    by (simp_all add: connected_system_def)
  have h3: "embeddings_create (example_services [bare_hit])
        (construct_search_query example_db (lit ''k_epsilon'') (lit ''airfoil flow'') []) = Inr ()"
    by (simp add: example_services_def)
  have h4: "fst (index_query (example_services [bare_hit]) () () 5) = Inr [bare_hit]"
    by (simp add: example_services_def)
  have none: "match_metadata bare_hit key = None" for key
    by (simp add: bare_hit_def)
  from retrieved_metadata_defaults[OF h1 h2 h3 h4]
  have "\<exists>doc. fst (retrieve_relevant_documents example_db (example_services [bare_hit])
                 connected_system (lit ''k_epsilon'') (lit ''airfoil flow'') [] 5) = Inr [doc]
          \<and> source doc = PStr (lit ''Unknown'')
          \<and> document_type doc = PStr (lit ''Unknown'')
          \<and> ci_index (chunk_info doc) = PInt 0
          \<and> ci_total (chunk_info doc) = PInt 1"
    by (auto simp: none list_all2_Cons2)
  with h1 h2 h3 h4 none show ?thesis by blast
qed

subsection \<open>The connected flag\<close>

lemma retrieve_connected:
  "connected (snd (retrieve_relevant_documents U S s m d f k)) = connected s"
  by (simp add: retrieve_relevant_documents_def retrieve_body_def Let_def
      split: prod.splits sum.splits)

text \<open>
  C10. The query-time operations leave the connected flag as it is, on every
  path: \<open>retrieve_relevant_documents\<close> and \<open>get_context_for_generation\<close> return the
  retriever with the flag they found (\<open>construct_search_query\<close> and
  \<open>expand_query_with_synonyms\<close> do not touch the retriever at all: they are functions
  of their string arguments). \<open>initialize\<close> sets the flag when the connection
  succeeds and never clears it.
\<close>

theorem connected_flag_frame:
  "connected (snd (retrieve_relevant_documents U S s m d f k)) = connected s
   \<and> connected (snd (get_context_for_generation U fmt S s m d f mx)) = connected s
   \<and> connected (snd (initialize S s)) = (connected s \<or> fst (initialize S s))
   \<and> (connected s \<longrightarrow> connected (snd (initialize S s)))"
proof -
  have g: "connected (snd (get_context_for_generation U fmt S s m d f mx)) = connected s"
    using retrieve_connected[of U S s m d f 8]
    by (cases "retrieve_relevant_documents U S s m d f 8")
       (auto simp: get_context_for_generation_def split: sum.splits)
  have i: "connected (snd (initialize S s)) = (connected s \<or> fst (initialize S s))"
    by (cases "connect_to_index S (vector_store s)")
       (auto simp: initialize_def split: bool.splits)
  from g i retrieve_connected[of U S s m d f k] show ?thesis by simp
qed

text \<open>
  A retrieval whose index query raises leaves a connected retriever connected,
  and so does an \<open>initialize\<close> that fails.
\<close>

theorem connected_flag_frame_witness:
  "connected connected_system
   \<and> fst (retrieve_relevant_documents example_db index_down connected_system
          (lit ''k_epsilon'') (lit ''airfoil flow'') [] 5) = Inr []
   \<and> connected (snd (retrieve_relevant_documents example_db index_down connected_system
          (lit ''k_epsilon'') (lit ''airfoil flow'') [] 5))
   \<and> connected (snd (get_context_for_generation example_db fmt_thousandths index_down
          connected_system (lit ''k_epsilon'') (lit ''airfoil flow'') [] 4000))
   \<and> \<not> fst (initialize index_down connected_system)
   \<and> connected (snd (initialize index_down connected_system))"
proof -
  have c: "connected connected_system"
    by (simp add: connected_system_def)
  have r: "fst (retrieve_relevant_documents example_db index_down connected_system
          (lit ''k_epsilon'') (lit ''airfoil flow'') [] 5) = Inr []"
    by (simp add: retrieve_relevant_documents_def retrieve_body_def Let_def
        query_similar_documents_def generate_embedding_def index_down_def connected_system_def)
  have i: "\<not> fst (initialize index_down connected_system)"
    by (simp add: initialize_def connect_to_index_def index_down_def)
  from c r i
    connected_flag_frame[of example_db index_down connected_system
      "lit ''k_epsilon''" "lit ''airfoil flow''" "[]" 5 fmt_thousandths 4000]
  show ?thesis by simp
qed

subsection \<open>Normalisation\<close>

lemma isspace_SP: "isspace SP"
  by (simp add: isspace_def SP_def)

lemma isspace_NL: "isspace NL"
  by (simp add: isspace_def NL_def)

lemma NL_not_SP: "NL \<noteq> SP"
  by (simp add: NL_def SP_def)

lemma dropWhile_head: "dropWhile P xs = y # ys \<Longrightarrow> \<not> P y"
  by (metis hd_dropWhile list.distinct(1) list.sel(1))

lemma single_spaced_tail: "single_spaced (c # cs) \<Longrightarrow> single_spaced cs"
  by (cases cs) auto

lemma single_spaced_Cons: "\<not> isspace c \<Longrightarrow> single_spaced cs \<Longrightarrow> single_spaced (c # cs)"
  by (cases cs) auto

lemma single_spaced_suffix: "single_spaced (a @ b) \<Longrightarrow> single_spaced b"
  by (induction a) (auto dest: single_spaced_tail)

lemma single_spaced_prefix: "single_spaced (a @ b) \<Longrightarrow> single_spaced a"
proof (induction a rule: single_spaced.induct)
  case 1
  then show ?case by simp
next
  case (2 c)
  then show ?case by (cases b) (auto split: if_splits)
next
  case (3 c d cs)
  then show ?case by (auto split: if_splits)
qed

lemma single_spaced_collapse: "single_spaced (collapse_ws t)"
proof (induction t rule: collapse_ws.induct)
  case 1
  then show ?case by simp
next
  case (2 c cs)
  show ?case
  proof (cases "isspace c")
    case False
    with 2 show ?thesis by (simp add: single_spaced_Cons)
  next
    case True
    with 2 have ih: "single_spaced (collapse_ws (dropWhile isspace cs))" by simp
    show ?thesis
    proof (cases "dropWhile isspace cs")
      case Nil
      then have "collapse_ws (dropWhile isspace cs) = []"
        by (simp only: collapse_ws.simps)
      with True show ?thesis by simp
    next
      case (Cons y ys)
      then have y: "\<not> isspace y" by (rule dropWhile_head)
      from ih Cons have "single_spaced (y # collapse_ws ys)"
        by (simp only: collapse_ws.simps y if_False)
      moreover from Cons have "collapse_ws (dropWhile isspace cs) = y # collapse_ws ys"
        by (simp only: collapse_ws.simps y if_False)
      ultimately show ?thesis using True y by simp
    qed
  qed
qed

lemma collapse_single_spaced: "single_spaced u \<Longrightarrow> collapse_ws u = u"
  by (induction u rule: single_spaced.induct) (auto split: if_splits)

lemma single_spaced_no_newline: "single_spaced u \<Longrightarrow> NL \<notin> set u"
  by (induction u rule: single_spaced.induct) (auto simp: isspace_NL NL_not_SP split: if_splits)

lemma sub_blank_lines_id: "NL \<notin> set u \<Longrightarrow> sub_blank_lines u = u"
  by (induction u) auto

lemma clean_text_eq: "clean_text t = strip (collapse_ws t)"
  by (simp add: clean_text_def sub_blank_lines_id single_spaced_no_newline single_spaced_collapse)

lemma strip_prefix_suffix:
  "\<exists>a b. u = a @ strip u @ b"
proof -
  let ?w = "dropWhile isspace u"
  have "u = takeWhile isspace u @ ?w" by simp
  moreover have "?w = rev (dropWhile isspace (rev ?w)) @ rev (takeWhile isspace (rev ?w))"
    by (metis rev_append rev_rev_ident takeWhile_dropWhile_id)
  ultimately have "u = takeWhile isspace u @ strip u @ rev (takeWhile isspace (rev ?w))"
    by (simp add: strip_def)
  then show ?thesis by blast
qed

lemma single_spaced_strip: "single_spaced u \<Longrightarrow> single_spaced (strip u)"
proof -
  assume u: "single_spaced u"
  obtain a b where "u = a @ strip u @ b" using strip_prefix_suffix by blast
  with u have "single_spaced (a @ strip u @ b)" by simp
  then have "single_spaced (strip u @ b)" by (rule single_spaced_suffix)
  then show ?thesis by (rule single_spaced_prefix)
qed

lemma strip_ends:
  "dropWhile isspace (rev (strip u)) = rev (strip u)"
  "dropWhile isspace (strip u) = strip u"
proof -
  let ?w = "dropWhile isspace u"
  let ?v = "dropWhile isspace (rev ?w)"
  show "dropWhile isspace (rev (strip u)) = rev (strip u)"
    by (simp add: strip_def dropWhile_idem)
  show "dropWhile isspace (strip u) = strip u"
  proof (cases "strip u")
    case Nil
    then show ?thesis by simp
  next
    case (Cons y ys)
    have w: "?w = rev ?v @ rev (takeWhile isspace (rev ?w))"
      by (metis rev_append rev_rev_ident takeWhile_dropWhile_id)
    from Cons have "rev ?v = y # ys" by (simp add: strip_def)
    with w have "?w = y # (ys @ rev (takeWhile isspace (rev ?w)))" by simp
    then have "\<not> isspace y" by (rule dropWhile_head)
    with Cons show ?thesis by simp
  qed
qed

lemma strip_strip: "strip (strip u) = strip u"
proof -
  have "strip (strip u) = rev (dropWhile isspace (rev (dropWhile isspace (strip u))))"
    by (simp add: strip_def)
  also have "\<dots> = rev (dropWhile isspace (rev (strip u)))"
    by (simp add: strip_ends(2))
  also have "\<dots> = strip u"
    by (simp add: strip_ends(1))
  finally show ?thesis .
qed

lemma clean_text_idem: "clean_text (clean_text t) = clean_text t"
proof -
  have "single_spaced (strip (collapse_ws t))"
    by (simp add: single_spaced_strip single_spaced_collapse)
  then have "collapse_ws (strip (collapse_ws t)) = strip (collapse_ws t)"
    by (rule collapse_single_spaced)
  then show ?thesis by (simp add: clean_text_eq strip_strip)
qed

lemma strip_empty_iff: "strip u = [] \<longleftrightarrow> list_all isspace u"
proof
  assume "list_all isspace u"
  then have d: "dropWhile isspace u = []" by (simp add: list_all_iff)
  show "strip u = []" by (simp only: strip_def d rev.simps dropWhile.simps)
next
  assume "strip u = []"
  then have "dropWhile isspace (dropWhile isspace u) = dropWhile isspace u"
            "list_all isspace (dropWhile isspace u)"
    by (simp_all add: strip_def dropWhile_idem list_all_iff)
  then have "dropWhile isspace u = []"
    by (metis dropWhile_eq_Nil_conv list_all_iff)
  then show "list_all isspace u" by (simp add: list_all_iff)
qed

lemma collapse_all_space: "list_all isspace (collapse_ws t) \<longleftrightarrow> list_all isspace t"
proof (induction t rule: collapse_ws.induct)
  case 1
  then show ?case by simp
next
  case (2 c cs)
  show ?case
  proof (cases "isspace c")
    case False
    then show ?thesis by simp
  next
    case True
    have "list_all isspace (dropWhile isspace cs) \<longleftrightarrow> list_all isspace cs"
      by (induction cs) auto
    with 2 True show ?thesis by (simp add: isspace_SP)
  qed
qed

lemma clean_text_empty_iff: "clean_text t = [] \<longleftrightarrow> strip t = []"
  by (simp add: clean_text_eq strip_empty_iff collapse_all_space)

text \<open>The repository's test of \<open>_clean_text\<close>: newlines become a space like any whitespace.\<close>

lemma clean_text_test:
  "clean_text (lit ''  This   is   a   test'' @ [NL, NL, NL] @ lit ''  with   extra   spaces  '')
     = lit ''This is a test with extra spaces''"
  by (simp add: clean_text_eq strip_def lit_def isspace_def NL_def SP_def)

lemma clean_text_two_spaces: "clean_text (lit ''a  b'') = lit ''a b''"
  by (simp add: clean_text_eq strip_def lit_def isspace_def SP_def)

text \<open>
  C8, as the claim states it: chunking a text gives the chunks of its normalised
  form. \<open>chunk_text\<close> hands the text to the splitter as it is; the text \<open>a  b\<close>
  with two spaces is one chunk with both spaces, its normalised form \<open>a b\<close> is
  one chunk with one space.
\<close>

theorem chunk_text_does_not_normalize:
  "map chunk_text_field (chunk_text one_chunk (lit ''a  b'') None) = [lit ''a  b'']
   \<and> map chunk_text_field (chunk_text one_chunk (clean_text (lit ''a  b'')) None) = [lit ''a b'']
   \<and> chunk_text one_chunk (lit ''a  b'') None
       \<noteq> chunk_text one_chunk (clean_text (lit ''a  b'')) None"
proof -
  have a: "map chunk_text_field (chunk_text one_chunk (lit ''a  b'') None) = [lit ''a  b'']"
    by (simp add: chunk_text_def one_chunk_def make_chunk_def strip_def lit_def isspace_def
        enumerate_eq_zip)
  have b: "map chunk_text_field (chunk_text one_chunk (clean_text (lit ''a  b'')) None)
      = [lit ''a b'']"
    by (simp add: clean_text_two_spaces)
       (simp add: chunk_text_def one_chunk_def make_chunk_def strip_def lit_def isspace_def
        enumerate_eq_zip)
  have ne: "[lit ''a  b''] \<noteq> [lit ''a b'']"
    by (simp add: lit_def)
  have "chunk_text one_chunk (lit ''a  b'') None
      \<noteq> chunk_text one_chunk (clean_text (lit ''a  b'')) None"
  proof
    assume "chunk_text one_chunk (lit ''a  b'') None
      = chunk_text one_chunk (clean_text (lit ''a  b'')) None"
    then have "map chunk_text_field (chunk_text one_chunk (lit ''a  b'') None)
      = map chunk_text_field (chunk_text one_chunk (clean_text (lit ''a  b'')) None)"
      by (rule arg_cong)
    then have "[lit ''a  b''] = [lit ''a b'']"
      by (simp only: a b)
    with ne show False by (rule notE)
  qed
  with a b show ?thesis by (intro conjI)
qed

lemma strip_clean_text: "strip (clean_text t) = clean_text t"
  by (simp add: clean_text_eq strip_strip)

text \<open>
  C8, amended: \<open>chunk_text\<close> does not normalise, it splits the text as it is given.
  For a text that is not empty after stripping, the texts of the chunks are the
  chunks that the splitter makes of the unmodified text, in order; for an empty
  or whitespace-only text there is no chunk. Chunking a text gives the chunks of
  its normalised form whenever the splitter makes the same chunks of both.
\<close>

theorem chunk_text_splits_text_as_given:
  "(strip t \<noteq> [] \<longrightarrow> map chunk_text_field (chunk_text splitter t metadata) = splitter t)
   \<and> (strip t = [] \<longrightarrow> chunk_text splitter t metadata = [])
   \<and> (splitter t = splitter (clean_text t) \<longrightarrow>
        chunk_text splitter t metadata = chunk_text splitter (clean_text t) metadata)"
proof (intro conjI impI)
  assume "strip t \<noteq> []"
  then show "map chunk_text_field (chunk_text splitter t metadata) = splitter t"
    by (simp add: chunk_text_def Let_def make_chunk_def enumerate_eq_zip comp_def
        map_snd_zip)
next
  assume "strip t = []"
  then show "chunk_text splitter t metadata = []"
    by (simp add: chunk_text_def)
next
  assume same: "splitter t = splitter (clean_text t)"
  have "(strip (clean_text t) = []) = (strip t = [])"
    by (simp add: strip_clean_text clean_text_empty_iff)
  with same show "chunk_text splitter t metadata = chunk_text splitter (clean_text t) metadata"
    by (simp add: chunk_text_def)
qed

theorem chunk_text_splits_text_as_given_witness:
  "strip (lit ''a  b'') \<noteq> []
   \<and> map chunk_text_field (chunk_text one_chunk (lit ''a  b'') None) = one_chunk (lit ''a  b'')
   \<and> one_chunk (lit ''a  b'') = [lit ''a  b'']
   \<and> strip [SP, NL, SP] = []
   \<and> chunk_text one_chunk [SP, NL, SP] None = []
   \<and> one_chunk (lit '' a b'') = one_chunk (clean_text (lit '' a b''))
   \<and> chunk_text one_chunk (lit '' a b'') None = chunk_text one_chunk (clean_text (lit '' a b'')) None"
proof -
  have a: "strip (lit ''a  b'') \<noteq> []"
    by (simp add: strip_def lit_def isspace_def)
  have a': "one_chunk (lit ''a  b'') = [lit ''a  b'']"
    by (simp add: one_chunk_def strip_def lit_def isspace_def)
  have b: "strip [SP, NL, SP] = []"
    by (simp add: strip_def isspace_def SP_def NL_def)
  have "clean_text (lit '' a b'') = lit ''a b''"
    by (simp add: clean_text_eq strip_def lit_def isspace_def SP_def)
  then have c: "one_chunk (lit '' a b'') = one_chunk (clean_text (lit '' a b''))"
    by (simp add: one_chunk_def strip_def lit_def isspace_def)
  have "map chunk_text_field (chunk_text one_chunk (lit ''a  b'') None) = one_chunk (lit ''a  b'')"
    using chunk_text_splits_text_as_given[of "lit ''a  b''" one_chunk None] a by blast
  moreover have "chunk_text one_chunk [SP, NL, SP] None = []"
    using chunk_text_splits_text_as_given[of "[SP, NL, SP]" one_chunk None] b by blast
  moreover have "chunk_text one_chunk (lit '' a b'') None
      = chunk_text one_chunk (clean_text (lit '' a b'')) None"
    using chunk_text_splits_text_as_given[of "lit '' a b''" one_chunk None] c by blast
  ultimately show ?thesis using a a' b c by (intro conjI)
qed

end
